theory Spec2Isabelle
  imports Main
begin

section \<open>Values, domain objects and errors\<close>

text \<open>
  A shallow embedding of \<^verbatim>\<open>core/domain/question_services.py\<close>.
  Python values that the services only pass around (the new value of an edit, the
  question data dictionary, a language code) are kept dynamically typed.
\<close>

datatype pyval = PNone | PStr string | PDict "(string \<times> pyval) list"

text \<open>
  The domain object \<^verbatim>\<open>question_domain.Question\<close>, with the four attributes that
  \<^verbatim>\<open>get_question_from_model\<close> passes to its constructor.
\<close>

record question =
  q_question_id :: string
  question_data :: pyval
  question_data_schema_version :: int
  language_code :: pyval

text \<open>
  A \<^verbatim>\<open>question_domain.QuestionChange\<close>: the attributes that
  \<^verbatim>\<open>apply_change_list\<close> reads. The dictionary form of a change
  (\<^verbatim>\<open>change.to_dict()\<close>, \<^verbatim>\<open>QuestionChange(change_dict)\<close>) carries the
  same three entries, so one record stands for both.
\<close>

record question_change =
  cmd :: string
  property_name :: string
  new_value :: pyval

datatype status =
    ACTIVITY_STATUS_PRIVATE
  | QUESTION_STATUS_PENDING
  | QUESTION_STATUS_APPROVED
  | QUESTION_STATUS_REJECTED

text \<open>
  Every exception the services can raise. The services raise plain \<^verbatim>\<open>Exception\<close>
  with a message; each message is one constructor.
\<close>

datatype error =
    EntityNotFoundError
  | InvalidChangeList
  | ValidationError
  | QuestionDoesNotExist
  | NotEnoughRights
  | AlreadyPublished
  | AlreadyUnpublished
  | AttributeError
  | TypeError

section \<open>Storage, cache and collaborators\<close>

record question_model =
  qm_id :: string
  qm_question_data :: pyval
  qm_question_data_schema_version :: int
  qm_language_code :: pyval
  qm_version :: int

text \<open>
  A \<^verbatim>\<open>QuestionSummaryModel\<close> row and a \<^verbatim>\<open>QuestionUserDataModel\<close> row.
  The id of a row is its datastore key: \<^verbatim>\<open>put()\<close> writes the row back under the
  key it was read with.
\<close>

record question_summary_model =
  qs_creator_id :: string
  qs_language_code :: pyval
  qs_status :: status
  qs_question_html_data :: pyval

record question_user_data_model =
  draft_change_list :: "question_change list option"
  draft_change_list_last_updated :: "int option"
  draft_change_list_question_version :: "int option"
  draft_change_list_id :: int

record commit_log_entry =
  cl_entity_id :: string
  cl_committer_id :: string
  cl_commit_message :: string
  cl_commit_cmds :: "question_change list"

text \<open>
  The two memcache key formats, \<^verbatim>\<open>'question:%s'\<close> and
  \<^verbatim>\<open>'question-version:%s:%s'\<close>, as two constructors.
\<close>

datatype memcache_key = QuestionKey string | QuestionVersionKey string int

record datastore =
  question_models :: "string \<rightharpoonup> question_model"
  question_snapshots :: "string \<times> int \<rightharpoonup> question_model"
  question_summaries :: "string \<rightharpoonup> question_summary_model"
  user_data_models :: "string \<times> string \<rightharpoonup> question_user_data_model"
  memcache :: "memcache_key \<rightharpoonup> question"
  commit_log :: "commit_log_entry list"

text \<open>
  The collaborators the services consume as opaque: \<^verbatim>\<open>user_services.is_admin\<close>,
  \<^verbatim>\<open>user_services.is_topic_manager\<close>, the actions of
  \<^verbatim>\<open>user_services.UserActionsInfo\<close>, and \<^verbatim>\<open>Question.validate\<close>
  (\<open>False\<close> where it raises).
\<close>

record env =
  is_admin :: "string \<Rightarrow> bool"
  is_topic_manager :: "string \<Rightarrow> bool"
  user_actions :: "string \<Rightarrow> string list"
  question_validate :: "question \<Rightarrow> bool"

text \<open>
  Modelled from the spec: the constants of \<^verbatim>\<open>question_domain\<close> and
  \<^verbatim>\<open>role_services\<close>, which are not among the sources. The edit command and the two
  property names are pairwise different strings.
\<close>

definition CMD_UPDATE_QUESTION_PROPERTY :: string where
  "CMD_UPDATE_QUESTION_PROPERTY = ''update_question_property''"

definition QUESTION_PROPERTY_LANGUAGE_CODE :: string where
  "QUESTION_PROPERTY_LANGUAGE_CODE = ''language_code''"

definition QUESTION_PROPERTY_QUESTION_DATA :: string where
  "QUESTION_PROPERTY_QUESTION_DATA = ''question_data''"

definition CMD_REJECT_QUESTION :: string where
  "CMD_REJECT_QUESTION = ''reject_question''"

definition ACTION_CHANGE_QUESTION_STATUS :: string where
  "ACTION_CHANGE_QUESTION_STATUS = ''CHANGE_QUESTION_STATUS''"

text \<open>
  Modelled from the spec: the setters of \<^verbatim>\<open>question_domain.Question\<close>, which is not
  among the sources. Each replaces its one field.
\<close>

definition update_language_code :: "question \<Rightarrow> pyval \<Rightarrow> question" where
  "update_language_code question v = question\<lparr>language_code := v\<rparr>"

definition update_question_data :: "question \<Rightarrow> pyval \<Rightarrow> question" where
  "update_question_data question v = question\<lparr>question_data := v\<rparr>"

text \<open>
  Modelled from the spec: \<^verbatim>\<open>QuestionModel.get\<close> of the storage layer, which is not
  among the sources. Without a version it reads the current model, with one the
  snapshot of that version; a miss raises when \<open>strict\<close> and is \<open>None\<close> otherwise.
\<close>

definition QuestionModel_get ::
  "string \<Rightarrow> bool \<Rightarrow> int option \<Rightarrow> datastore \<Rightarrow> error + question_model option" where
  "QuestionModel_get entity_id strict version ds =
     (case (case version of
              None \<Rightarrow> question_models ds entity_id
            | Some v \<Rightarrow> question_snapshots ds (entity_id, v)) of
        Some model \<Rightarrow> Inr (Some model)
      | None \<Rightarrow> if strict then Inl EntityNotFoundError else Inr None)"

text \<open>
  Modelled from the spec: \<^verbatim>\<open>QuestionModel.commit\<close> of the storage layer, which is
  not among the sources. It writes the model as the next version, keeps the snapshot
  of that version and appends a commit-log entry; it does not touch the cache.
\<close>

definition QuestionModel_commit ::
  "string \<Rightarrow> string \<Rightarrow> question_change list \<Rightarrow> question_model \<Rightarrow> datastore \<Rightarrow> datastore" where
  "QuestionModel_commit committer_id commit_message commit_cmds model ds =
     (let new_model = model\<lparr>qm_version := qm_version model + 1\<rparr> in
      ds\<lparr>question_models := (question_models ds)(qm_id model \<mapsto> new_model),
         question_snapshots :=
           (question_snapshots ds)((qm_id model, qm_version new_model) \<mapsto> new_model),
         commit_log := commit_log ds @
           [\<lparr>cl_entity_id = qm_id model, cl_committer_id = committer_id,
             cl_commit_message = commit_message, cl_commit_cmds = commit_cmds\<rparr>]\<rparr>)"

text \<open>
  Modelled from the spec: \<^verbatim>\<open>QuestionSummaryModel.commit\<close>, which is not among the
  sources. A status-only transition stores the summary row and appends a commit-log
  entry with the structural marker.
\<close>

definition QuestionSummaryModel_commit ::
  "string \<Rightarrow> string \<Rightarrow> string \<Rightarrow> question_change list \<Rightarrow> question_summary_model \<Rightarrow>
     datastore \<Rightarrow> datastore" where
  "QuestionSummaryModel_commit entity_id committer_id commit_message commit_cmds model ds =
     ds\<lparr>question_summaries := (question_summaries ds)(entity_id \<mapsto> model),
        commit_log := commit_log ds @
          [\<lparr>cl_entity_id = entity_id, cl_committer_id = committer_id,
            cl_commit_message = commit_message, cl_commit_cmds = commit_cmds\<rparr>]\<rparr>"

text \<open>
  Modelled from the spec: \<^verbatim>\<open>QuestionUserDataModel.create\<close>, which is not among the
  sources. A new draft row has no change list and \<^verbatim>\<open>draft_change_list_id\<close> 0.
\<close>

definition QuestionUserDataModel_create :: question_user_data_model where
  "QuestionUserDataModel_create =
     \<lparr>draft_change_list = None, draft_change_list_last_updated = None,
      draft_change_list_question_version = None, draft_change_list_id = 0\<rparr>"

section \<open>Reading questions through the cache\<close>

definition get_question_from_model :: "question_model \<Rightarrow> question" where
  "get_question_from_model question_model =
     \<lparr>q_question_id = qm_id question_model,
      question_data = qm_question_data question_model,
      question_data_schema_version = qm_question_data_schema_version question_model,
      language_code = qm_language_code question_model\<rparr>"

text \<open>\<^verbatim>\<open>if version:\<close> is false for \<^verbatim>\<open>None\<close> and for 0.\<close>

definition get_question_memcache_key :: "string \<Rightarrow> int option \<Rightarrow> memcache_key" where
  "get_question_memcache_key question_id version =
     (case version of
        None \<Rightarrow> QuestionKey question_id
      | Some v \<Rightarrow> if v \<noteq> 0 then QuestionVersionKey question_id v else QuestionKey question_id)"

definition get_question_by_id ::
  "string \<Rightarrow> bool \<Rightarrow> int option \<Rightarrow> datastore \<Rightarrow> (error + question option) \<times> datastore" where
  "get_question_by_id question_id strict version ds =
     (let question_memcache_key = get_question_memcache_key question_id version in
      case memcache ds question_memcache_key of
        Some memcached_question \<Rightarrow> (Inr (Some memcached_question), ds)
      | None \<Rightarrow>
          (case QuestionModel_get question_id strict version ds of
             Inl e \<Rightarrow> (Inl e, ds)
           | Inr None \<Rightarrow> (Inr None, ds)
           | Inr (Some question_model) \<Rightarrow>
               (let question = get_question_from_model question_model in
                (Inr (Some question),
                 ds\<lparr>memcache := (memcache ds)(question_memcache_key \<mapsto> question)\<rparr>))))"

section \<open>The change-list engine and the commit manager\<close>

text \<open>
  The loop of \<^verbatim>\<open>apply_change_list\<close> over the question it loaded. The inner
  \<^verbatim>\<open>elif\<close> compares \<^verbatim>\<open>change.cmd\<close>, as the source does. Calling a setter on
  \<^verbatim>\<open>None\<close> raises \<^verbatim>\<open>AttributeError\<close>.
\<close>

fun apply_changes :: "question_change list \<Rightarrow> question option \<Rightarrow> error + question option" where
  "apply_changes [] question = Inr question"
| "apply_changes (change # rest) question =
     (if cmd change = CMD_UPDATE_QUESTION_PROPERTY then
        (if property_name change = QUESTION_PROPERTY_LANGUAGE_CODE then
           (case question of
              None \<Rightarrow> Inl AttributeError
            | Some q \<Rightarrow> apply_changes rest (Some (update_language_code q (new_value change))))
         else if cmd change = QUESTION_PROPERTY_QUESTION_DATA then
           (case question of
              None \<Rightarrow> Inl AttributeError
            | Some q \<Rightarrow> apply_changes rest (Some (update_question_data q (new_value change))))
         else apply_changes rest question)
      else apply_changes rest question)"

definition apply_change_list ::
  "string \<Rightarrow> question_change list \<Rightarrow> datastore \<Rightarrow> (error + question option) \<times> datastore" where
  "apply_change_list question_id change_list ds =
     (case get_question_by_id question_id True None ds of
        (Inl e, ds') \<Rightarrow> (Inl e, ds')
      | (Inr question, ds') \<Rightarrow> (apply_changes change_list question, ds'))"

definition save_question ::
  "env \<Rightarrow> string \<Rightarrow> question option \<Rightarrow> question_change list \<Rightarrow> string \<Rightarrow> datastore \<Rightarrow>
     (error + unit) \<times> datastore" where
  "save_question env committer_id question change_list commit_message ds =
     (case question of
        None \<Rightarrow> (Inl AttributeError, ds)
      | Some q \<Rightarrow>
          if change_list = [] then (Inl InvalidChangeList, ds)
          else if \<not> question_validate env q then (Inl ValidationError, ds)
          else
            (case QuestionModel_get (q_question_id q) True None ds of
               Inl e \<Rightarrow> (Inl e, ds)
             | Inr None \<Rightarrow> (Inl AttributeError, ds)
             | Inr (Some question_model) \<Rightarrow>
                 (Inr (),
                  QuestionModel_commit committer_id commit_message change_list
                    (question_model\<lparr>
                       qm_question_data := question_data q,
                       qm_question_data_schema_version := question_data_schema_version q,
                       qm_language_code := language_code q\<rparr>) ds)))"

definition update_question ::
  "env \<Rightarrow> string \<Rightarrow> string \<Rightarrow> question_change list \<Rightarrow> string \<Rightarrow> datastore \<Rightarrow>
     (error + unit) \<times> datastore" where
  "update_question env committer_id question_id change_list commit_message ds =
     (case apply_change_list question_id change_list ds of
        (Inl e, ds') \<Rightarrow> (Inl e, ds')
      | (Inr updated_question, ds') \<Rightarrow>
          save_question env committer_id updated_question change_list commit_message ds')"

section \<open>The workflow of question summaries\<close>

definition get_question_summary_by_question_id ::
  "string \<Rightarrow> bool \<Rightarrow> datastore \<Rightarrow> error + question_summary_model option" where
  "get_question_summary_by_question_id question_id strict ds =
     (case question_summaries ds question_id of
        Some model \<Rightarrow> Inr (Some model)
      | None \<Rightarrow> if strict then Inl EntityNotFoundError else Inr None)"

definition reject_question :: "string \<Rightarrow> string \<Rightarrow> datastore \<Rightarrow> (error + unit) \<times> datastore" where
  "reject_question committer_id question_id ds =
     (case get_question_summary_by_question_id question_id False ds of
        Inl e \<Rightarrow> (Inl e, ds)
      | Inr None \<Rightarrow> (Inl AttributeError, ds)
      | Inr (Some model) \<Rightarrow>
          (Inr (),
           QuestionSummaryModel_commit question_id committer_id ''Marked question as rejected.''
             [\<lparr>cmd = CMD_REJECT_QUESTION, property_name = [], new_value = PNone\<rparr>]
             (model\<lparr>qs_status := QUESTION_STATUS_REJECTED\<rparr>) ds))"

definition check_can_edit_question :: "env \<Rightarrow> string \<Rightarrow> string \<Rightarrow> datastore \<Rightarrow> error + bool" where
  "check_can_edit_question env user_id question_id ds =
     (case get_question_summary_by_question_id question_id False ds of
        Inl e \<Rightarrow> Inl e
      | Inr None \<Rightarrow> Inl AttributeError
      | Inr (Some question_summary) \<Rightarrow>
          if qs_status question_summary = QUESTION_STATUS_PENDING then Inr False
          else if (qs_status question_summary = ACTIVITY_STATUS_PRIVATE \<or>
                   qs_status question_summary = QUESTION_STATUS_REJECTED) \<and>
                  qs_creator_id question_summary = user_id then Inr True
          else if is_admin env user_id \<or> is_topic_manager env user_id then
            (if qs_status question_summary = QUESTION_STATUS_APPROVED then Inr True
             else Inr False)
          else Inr False)"

definition publish_question ::
  "env \<Rightarrow> string \<Rightarrow> string \<Rightarrow> datastore \<Rightarrow> (error + unit) \<times> datastore" where
  "publish_question env question_id committer_id ds =
     (case get_question_summary_by_question_id question_id False ds of
        Inl e \<Rightarrow> (Inl e, ds)
      | Inr None \<Rightarrow> (Inl QuestionDoesNotExist, ds)
      | Inr (Some question_summary) \<Rightarrow>
          if ACTION_CHANGE_QUESTION_STATUS \<notin> set (user_actions env committer_id)
          then (Inl NotEnoughRights, ds)
          else if qs_status question_summary = QUESTION_STATUS_APPROVED
          then (Inl AlreadyPublished, ds)
          else
            (Inr (),
             ds\<lparr>question_summaries := (question_summaries ds)
                  (question_id \<mapsto> question_summary\<lparr>qs_status := QUESTION_STATUS_APPROVED\<rparr>)\<rparr>))"

definition unpublish_question ::
  "env \<Rightarrow> string \<Rightarrow> string \<Rightarrow> datastore \<Rightarrow> (error + unit) \<times> datastore" where
  "unpublish_question env question_id committer_id ds =
     (case get_question_summary_by_question_id question_id False ds of
        Inl e \<Rightarrow> (Inl e, ds)
      | Inr None \<Rightarrow> (Inl QuestionDoesNotExist, ds)
      | Inr (Some question_summary) \<Rightarrow>
          if ACTION_CHANGE_QUESTION_STATUS \<notin> set (user_actions env committer_id)
          then (Inl NotEnoughRights, ds)
          else if \<not> qs_status question_summary = QUESTION_STATUS_APPROVED
          then (Inl AlreadyUnpublished, ds)
          else
            (Inr (),
             ds\<lparr>question_summaries := (question_summaries ds)
                  (question_id \<mapsto> question_summary\<lparr>qs_status := ACTIVITY_STATUS_PRIVATE\<rparr>)\<rparr>))"

section \<open>Drafts\<close>

definition is_version_of_draft_valid ::
  "string \<Rightarrow> int option \<Rightarrow> datastore \<Rightarrow> (error + bool) \<times> datastore" where
  "is_version_of_draft_valid question_id version ds =
     (case get_question_by_id question_id True None ds of
        (Inl e, ds') \<Rightarrow> (Inl e, ds')
      | (Inr None, ds') \<Rightarrow> (Inl AttributeError, ds')
      | (Inr (Some question), ds') \<Rightarrow>
          (Inr (Some (question_data_schema_version question) = version), ds'))"

text \<open>A list is true in a condition when it is neither \<^verbatim>\<open>None\<close> nor empty.\<close>

definition truthy :: "'a list option \<Rightarrow> bool" where
  "truthy xs = (case xs of None \<Rightarrow> False | Some l \<Rightarrow> l \<noteq> [])"

definition get_question_with_draft_applied ::
  "string \<Rightarrow> string \<Rightarrow> datastore \<Rightarrow> (error + question option) \<times> datastore" where
  "get_question_with_draft_applied question_id user_id ds =
     (let question_user_data = user_data_models ds (user_id, question_id) in
      case get_question_by_id question_id True None ds of
        (Inl e, ds1) \<Rightarrow> (Inl e, ds1)
      | (Inr question, ds1) \<Rightarrow>
          (case question_user_data of
             None \<Rightarrow> (Inr question, ds1)
           | Some row \<Rightarrow>
               if \<not> truthy (draft_change_list row) then (Inr question, ds1)
               else
                 (case is_version_of_draft_valid question_id
                         (draft_change_list_question_version row) ds1 of
                    (Inl e, ds2) \<Rightarrow> (Inl e, ds2)
                  | (Inr valid, ds2) \<Rightarrow>
                      if valid
                      then apply_change_list question_id (the (draft_change_list row)) ds2
                      else (Inr question, ds2))))"

definition discard_draft :: "string \<Rightarrow> string \<Rightarrow> datastore \<Rightarrow> (error + unit) \<times> datastore" where
  "discard_draft question_id user_id ds =
     (case user_data_models ds (user_id, question_id) of
        None \<Rightarrow> (Inr (), ds)
      | Some row \<Rightarrow>
          (Inr (),
           ds\<lparr>user_data_models := (user_data_models ds)
                ((user_id, question_id) \<mapsto>
                   row\<lparr>draft_change_list := None,
                       draft_change_list_last_updated := None,
                       draft_change_list_question_version := None\<rparr>)\<rparr>))"

text \<open>
  The guard of \<^verbatim>\<open>create_or_update_draft\<close>: \<^verbatim>\<open>and\<close> stops at the first false
  operand, and comparing \<^verbatim>\<open>None\<close> with a datetime raises \<^verbatim>\<open>TypeError\<close>.
\<close>

definition draft_is_newer :: "question_user_data_model option \<Rightarrow> int \<Rightarrow> error + bool" where
  "draft_is_newer question_user_data current_datetime =
     (case question_user_data of
        None \<Rightarrow> Inr False
      | Some row \<Rightarrow>
          if \<not> truthy (draft_change_list row) then Inr False
          else
            (case draft_change_list_last_updated row of
               None \<Rightarrow> Inl TypeError
             | Some last_updated \<Rightarrow> Inr (last_updated > current_datetime)))"

definition create_or_update_draft ::
  "env \<Rightarrow> string \<Rightarrow> string \<Rightarrow> question_change list \<Rightarrow> int \<Rightarrow> int \<Rightarrow> datastore \<Rightarrow>
     (error + unit) \<times> datastore" where
  "create_or_update_draft env question_id user_id change_list question_version
       current_datetime ds =
     (let question_user_data = user_data_models ds (user_id, question_id) in
      case draft_is_newer question_user_data current_datetime of
        Inl e \<Rightarrow> (Inl e, ds)
      | Inr True \<Rightarrow> (Inr (), ds)
      | Inr False \<Rightarrow>
          (case apply_change_list question_id change_list ds of
             (Inl e, ds') \<Rightarrow> (Inl e, ds')
           | (Inr None, ds') \<Rightarrow> (Inl AttributeError, ds')
           | (Inr (Some updated_question), ds') \<Rightarrow>
               if \<not> question_validate env updated_question then (Inl ValidationError, ds')
               else
                 (let row = (case question_user_data of
                               None \<Rightarrow> QuestionUserDataModel_create
                             | Some r \<Rightarrow> r) in
                  (Inr (),
                   ds'\<lparr>user_data_models := (user_data_models ds')
                        ((user_id, question_id) \<mapsto>
                           row\<lparr>draft_change_list := Some change_list,
                               draft_change_list_last_updated := Some current_datetime,
                               draft_change_list_question_version := Some question_version,
                               draft_change_list_id := draft_change_list_id row + 1\<rparr>)\<rparr>))))"

section \<open>A concrete store\<close>

text \<open>
  One question \<open>q1\<close>, created by \<open>alice\<close> and stored at version 2 with schema version 1,
  and three summaries, one per status that the guards tell apart. \<open>admin\<close> holds the
  status-change action; \<open>bob\<close> holds nothing.
\<close>

definition en_question :: question where
  "en_question =
     \<lparr>q_question_id = ''q1'', question_data = PDict [(''html'', PStr ''P1'')],
      question_data_schema_version = 1, language_code = PStr ''en''\<rparr>"

definition en_question_model :: question_model where
  "en_question_model =
     \<lparr>qm_id = ''q1'', qm_question_data = PDict [(''html'', PStr ''P1'')],
      qm_question_data_schema_version = 1, qm_language_code = PStr ''en'', qm_version = 2\<rparr>"

definition summary_of :: "status \<Rightarrow> question_summary_model" where
  "summary_of s =
     \<lparr>qs_creator_id = ''alice'', qs_language_code = PStr ''en'', qs_status = s,
      qs_question_html_data = PStr ''P1''\<rparr>"

definition example_store :: datastore where
  "example_store =
     \<lparr>question_models = [''q1'' \<mapsto> en_question_model],
      question_snapshots = [(''q1'', 2) \<mapsto> en_question_model],
      question_summaries =
        [''q1'' \<mapsto> summary_of ACTIVITY_STATUS_PRIVATE,
         ''q2'' \<mapsto> summary_of QUESTION_STATUS_PENDING,
         ''q3'' \<mapsto> summary_of QUESTION_STATUS_APPROVED],
      user_data_models = Map.empty,
      memcache = Map.empty,
      commit_log = []\<rparr>"

definition example_env :: env where
  "example_env =
     \<lparr>is_admin = (\<lambda>u. u = ''admin''),
      is_topic_manager = (\<lambda>u. u = ''manager''),
      user_actions = (\<lambda>u. if u = ''admin'' then [ACTION_CHANGE_QUESTION_STATUS] else []),
      question_validate = (\<lambda>q. question_data q \<noteq> PDict [] \<and>
         (language_code q = PStr ''en'' \<or> language_code q = PStr ''fr'') \<and>
         0 \<le> question_data_schema_version q)\<rparr>"

definition fr_edit :: question_change where
  "fr_edit =
     \<lparr>cmd = CMD_UPDATE_QUESTION_PROPERTY, property_name = QUESTION_PROPERTY_LANGUAGE_CODE,
      new_value = PStr ''fr''\<rparr>"

definition data_edit :: question_change where
  "data_edit =
     \<lparr>cmd = CMD_UPDATE_QUESTION_PROPERTY, property_name = QUESTION_PROPERTY_QUESTION_DATA,
      new_value = PDict [(''html'', PStr ''P2'')]\<rparr>"

definition unknown_cmd_edit :: question_change where
  "unknown_cmd_edit =
     \<lparr>cmd = ''rename_question'', property_name = ''title'', new_value = PStr ''T''\<rparr>"

definition unknown_field_edit :: question_change where
  "unknown_field_edit =
     \<lparr>cmd = CMD_UPDATE_QUESTION_PROPERTY, property_name = ''title'', new_value = PStr ''T''\<rparr>"

definition zz_edit :: question_change where
  "zz_edit =
     \<lparr>cmd = CMD_UPDATE_QUESTION_PROPERTY, property_name = QUESTION_PROPERTY_LANGUAGE_CODE,
      new_value = PStr ''zz''\<rparr>"

definition draft_row ::
  "question_change list \<Rightarrow> int \<Rightarrow> int \<Rightarrow> int \<Rightarrow> question_user_data_model" where
  "draft_row changes last_updated version n =
     \<lparr>draft_change_list = Some changes, draft_change_list_last_updated = Some last_updated,
      draft_change_list_question_version = Some version, draft_change_list_id = n\<rparr>"

definition store_with_draft :: "question_user_data_model \<Rightarrow> datastore" where
  "store_with_draft row = example_store\<lparr>user_data_models := [(''alice'', ''q1'') \<mapsto> row]\<rparr>"

lemmas example_defs = en_question_def en_question_model_def summary_of_def example_store_def
  example_env_def fr_edit_def data_edit_def unknown_cmd_edit_def unknown_field_edit_def
  zz_edit_def   draft_row_def store_with_draft_def
  CMD_UPDATE_QUESTION_PROPERTY_def QUESTION_PROPERTY_LANGUAGE_CODE_def
  QUESTION_PROPERTY_QUESTION_DATA_def ACTION_CHANGE_QUESTION_STATUS_def CMD_REJECT_QUESTION_def

lemmas service_defs = update_question_def apply_change_list_def get_question_by_id_def
  get_question_memcache_key_def QuestionModel_get_def get_question_from_model_def
  save_question_def QuestionModel_commit_def update_language_code_def update_question_data_def
  Let_def

section \<open>What reading and applying leave alone\<close>

lemma get_question_by_id_keeps:
  "question_models (snd (get_question_by_id question_id strict version ds)) = question_models ds"
  "question_snapshots (snd (get_question_by_id question_id strict version ds)) =
     question_snapshots ds"
  "question_summaries (snd (get_question_by_id question_id strict version ds)) =
     question_summaries ds"
  "user_data_models (snd (get_question_by_id question_id strict version ds)) =
     user_data_models ds"
  "commit_log (snd (get_question_by_id question_id strict version ds)) = commit_log ds"
  by (simp_all add: get_question_by_id_def Let_def split: option.splits sum.splits)

lemma get_question_by_id_found:
  assumes "question_models ds question_id = Some m \<or>
           memcache ds (QuestionKey question_id) = Some q"
  shows "\<exists>q'. fst (get_question_by_id question_id True None ds) = Inr (Some q')"
  using assms
  by (auto simp: get_question_by_id_def get_question_memcache_key_def QuestionModel_get_def
      Let_def split: option.splits)

lemma apply_change_list_state:
  "snd (apply_change_list question_id change_list ds) =
     snd (get_question_by_id question_id True None ds)"
  by (simp add: apply_change_list_def split: prod.splits sum.splits)

lemma apply_changes_Some: "\<exists>q'. apply_changes change_list (Some q) = Inr (Some q')"
  by (induction change_list arbitrary: q) simp_all

lemma apply_changes_skip:
  assumes "cmd c \<noteq> CMD_UPDATE_QUESTION_PROPERTY \<or>
           (property_name c \<noteq> QUESTION_PROPERTY_LANGUAGE_CODE \<and>
            property_name c \<noteq> QUESTION_PROPERTY_QUESTION_DATA)"
  shows "apply_changes (pre @ c # post) question = apply_changes (pre @ post) question"
proof (induction pre arbitrary: question)
  case Nil
  from assms show ?case
    by (auto simp: CMD_UPDATE_QUESTION_PROPERTY_def QUESTION_PROPERTY_QUESTION_DATA_def)
next
  case (Cons a pre)
  then show ?case by (simp split: option.splits)
qed

lemma apply_change_list_found:
  assumes "question_models ds question_id = Some m \<or>
           memcache ds (QuestionKey question_id) = Some q"
  shows "\<exists>q'. fst (apply_change_list question_id change_list ds) = Inr (Some q')"
proof -
  from get_question_by_id_found[OF assms] obtain q0 where
    g: "fst (get_question_by_id question_id True None ds) = Inr (Some q0)" by blast
  obtain q' where "apply_changes change_list (Some q0) = Inr (Some q')"
    using apply_changes_Some by blast
  with g show ?thesis
    by (cases "get_question_by_id question_id True None ds") (simp add: apply_change_list_def)
qed

lemma save_question_failure:
  assumes "fst (save_question env committer_id question change_list commit_message ds) = Inl e"
  shows "snd (save_question env committer_id question change_list commit_message ds) = ds"
  using assms
  by (auto simp: save_question_def split: option.splits sum.splits if_splits)

lemma update_question_failure:
  assumes "fst (update_question env committer_id question_id change_list commit_message ds) =
           Inl e"
  shows "snd (update_question env committer_id question_id change_list commit_message ds) =
         snd (get_question_by_id question_id True None ds)"
proof (cases "apply_change_list question_id change_list ds")
  case (Pair r ds')
  then have s: "ds' = snd (get_question_by_id question_id True None ds)"
    using apply_change_list_state[of question_id change_list ds] by simp
  show ?thesis
  proof (cases r)
    case (Inl a)
    with Pair s show ?thesis by (simp add: update_question_def)
  next
    case (Inr uq)
    with Pair assms
    have "fst (save_question env committer_id uq change_list commit_message ds') = Inl e"
      by (simp add: update_question_def)
    from save_question_failure[OF this] Pair Inr s show ?thesis
      by (simp add: update_question_def)
  qed
qed


lemma draft_is_newer_False:
  assumes "row_opt = None \<or>
           (\<exists>row. row_opt = Some row \<and>
              (draft_change_list row = None \<or> draft_change_list row = Some [] \<or>
               (\<exists>t. draft_change_list_last_updated row = Some t \<and> t \<le> current_datetime)))"
  shows "draft_is_newer row_opt current_datetime = Inr False"
  using assms
  by (auto simp: draft_is_newer_def truthy_def split: option.splits)

lemma draft_is_newer_True:
  assumes "row_opt = Some row" "draft_change_list row = Some l" "l \<noteq> []"
    "draft_change_list_last_updated row = Some t" "current_datetime < t"
  shows "draft_is_newer row_opt current_datetime = Inr True"
  using assms by (simp add: draft_is_newer_def truthy_def)

lemma create_or_update_draft_writes:
  assumes "draft_is_newer (user_data_models ds (user_id, question_id)) current_datetime =
           Inr False"
    and "apply_change_list question_id change_list ds = (Inr (Some updated_question), ds')"
    and "question_validate env updated_question"
  shows "create_or_update_draft env question_id user_id change_list question_version
           current_datetime ds =
         (Inr (), ds'\<lparr>user_data_models := (user_data_models ds)((user_id, question_id) \<mapsto>
            \<lparr>draft_change_list = Some change_list,
             draft_change_list_last_updated = Some current_datetime,
             draft_change_list_question_version = Some question_version,
             draft_change_list_id =
               (case user_data_models ds (user_id, question_id) of
                  None \<Rightarrow> 0 | Some r \<Rightarrow> draft_change_list_id r) + 1\<rparr>)\<rparr>)"
proof -
  have u: "user_data_models ds' = user_data_models ds"
    using apply_change_list_state[of question_id change_list ds] assms(2)
    by (simp add: get_question_by_id_keeps)
  show ?thesis
  proof (cases "user_data_models ds (user_id, question_id)")
    case None
    with assms u show ?thesis
      by (simp add: create_or_update_draft_def Let_def QuestionUserDataModel_create_def)
  next
    case (Some r)
    with assms u show ?thesis
      by (cases r) (simp add: create_or_update_draft_def Let_def)
  qed
qed

lemma apply_changes_append:
  "apply_changes (xs @ ys) question =
     (case apply_changes xs question of Inl e \<Rightarrow> Inl e | Inr q1 \<Rightarrow> apply_changes ys q1)"
  by (induction xs arbitrary: question) (simp_all split: option.splits)

lemma apply_changes_all_skipped:
  assumes "\<forall>u\<in>set skipped.
            cmd u \<noteq> CMD_UPDATE_QUESTION_PROPERTY \<or>
            (property_name u \<noteq> QUESTION_PROPERTY_LANGUAGE_CODE \<and>
             property_name u \<noteq> QUESTION_PROPERTY_QUESTION_DATA)"
  shows "apply_changes skipped question = Inr question"
  using assms
proof (induction skipped)
  case Nil
  show ?case by simp
next
  case (Cons u skipped)
  then show ?case
    by (auto simp: CMD_UPDATE_QUESTION_PROPERTY_def QUESTION_PROPERTY_QUESTION_DATA_def)
qed

lemma apply_changes_language_edit:
  assumes "cmd l = CMD_UPDATE_QUESTION_PROPERTY"
    and "property_name l = QUESTION_PROPERTY_LANGUAGE_CODE"
    and "\<forall>u\<in>set after.
            cmd u \<noteq> CMD_UPDATE_QUESTION_PROPERTY \<or>
            (property_name u \<noteq> QUESTION_PROPERTY_LANGUAGE_CODE \<and>
             property_name u \<noteq> QUESTION_PROPERTY_QUESTION_DATA)"
  shows "\<exists>q1. apply_changes before (Some q0) = Inr (Some q1) \<and>
              apply_changes (before @ l # after) (Some q0) =
                Inr (Some (q1\<lparr>language_code := new_value l\<rparr>))"
proof -
  obtain q1 where b: "apply_changes before (Some q0) = Inr (Some q1)"
    using apply_changes_Some by blast
  have "apply_changes (before @ l # after) (Some q0) = apply_changes (l # after) (Some q1)"
    by (simp add: apply_changes_append b)
  also have "\<dots> = apply_changes after (Some (q1\<lparr>language_code := new_value l\<rparr>))"
    using assms(1,2) by (simp add: update_language_code_def)
  also have "\<dots> = Inr (Some (q1\<lparr>language_code := new_value l\<rparr>))"
    using assms(3) by (rule apply_changes_all_skipped)
  finally show ?thesis using b by blast
qed

lemma apply_change_list_fst:
  assumes "fst (get_question_by_id question_id True None ds) = Inr question"
  shows "fst (apply_change_list question_id change_list ds) = apply_changes change_list question"
  using assms
  by (cases "get_question_by_id question_id True None ds") (simp add: apply_change_list_def)

lemma update_question_success:
  assumes "fst (update_question env committer_id question_id change_list commit_message ds) =
           Inr ()"
  shows "\<exists>q' m. fst (apply_change_list question_id change_list ds) = Inr (Some q') \<and>
           question_models ds (q_question_id q') = Some m \<and>
           question_models (snd (update_question env committer_id question_id change_list
               commit_message ds)) =
             (question_models ds)(qm_id m \<mapsto>
                m\<lparr>qm_question_data := question_data q',
                  qm_question_data_schema_version := question_data_schema_version q',
                  qm_language_code := language_code q',
                  qm_version := qm_version m + 1\<rparr>)"
proof (cases "apply_change_list question_id change_list ds")
  case (Pair r ds')
  then have s: "question_models ds' = question_models ds"
    using apply_change_list_state[of question_id change_list ds]
    by (simp add: get_question_by_id_keeps)
  from Pair assms obtain uq where r: "r = Inr uq"
    and sv: "fst (save_question env committer_id uq change_list commit_message ds') = Inr ()"
    by (cases r) (simp_all add: update_question_def)
  from sv obtain q' where uq: "uq = Some q'"
    by (cases uq) (simp_all add: save_question_def)
  from sv uq obtain m where m: "question_models ds (q_question_id q') = Some m"
    by (cases "question_models ds (q_question_id q')")
      (simp_all add: save_question_def QuestionModel_get_def s split: if_splits)
  from sv uq m have c: "change_list \<noteq> []" "question_validate env q'"
    by (auto simp: save_question_def split: if_splits)
  have "question_models (snd (update_question env committer_id question_id change_list
               commit_message ds)) =
             (question_models ds)(qm_id m \<mapsto>
                m\<lparr>qm_question_data := question_data q',
                  qm_question_data_schema_version := question_data_schema_version q',
                  qm_language_code := language_code q',
                  qm_version := qm_version m + 1\<rparr>)"
    using Pair r uq m c s
    by (simp add: update_question_def save_question_def QuestionModel_get_def
        QuestionModel_commit_def Let_def)
  with Pair r uq m show ?thesis by simp
qed

section \<open>The edit-permission predicate\<close>

text \<open>
  Claim C7. For a question whose summary exists, \<^verbatim>\<open>check_can_edit_question\<close> returns
  true exactly when the status is private or rejected and the user is the creator of the
  summary, or the user is an admin or a topic manager and the status is approved. When the
  status is pending it returns false for every user.
\<close>

theorem check_can_edit_question_iff:
  assumes "question_summaries ds question_id = Some question_summary"
  shows "check_can_edit_question env user_id question_id ds =
           Inr (((qs_status question_summary = ACTIVITY_STATUS_PRIVATE \<or>
                  qs_status question_summary = QUESTION_STATUS_REJECTED) \<and>
                 qs_creator_id question_summary = user_id) \<or>
                ((is_admin env user_id \<or> is_topic_manager env user_id) \<and>
                 qs_status question_summary = QUESTION_STATUS_APPROVED)) \<and>
         (qs_status question_summary = QUESTION_STATUS_PENDING \<longrightarrow>
            check_can_edit_question env user_id question_id ds = Inr False)"
  using assms
  by (auto simp: check_can_edit_question_def get_question_summary_by_question_id_def)

text \<open>
  The predicate on the concrete store: the creator may edit her private question, an admin
  may not; nobody may edit the pending one; a topic manager may edit the approved one, its
  creator may not.
\<close>

theorem check_can_edit_question_iff_witness:
  "check_can_edit_question example_env ''alice'' ''q1'' example_store = Inr True \<and>
   check_can_edit_question example_env ''admin'' ''q1'' example_store = Inr False \<and>
   check_can_edit_question example_env ''admin'' ''q2'' example_store = Inr False \<and>
   check_can_edit_question example_env ''alice'' ''q2'' example_store = Inr False \<and>
   check_can_edit_question example_env ''manager'' ''q3'' example_store = Inr True \<and>
   check_can_edit_question example_env ''alice'' ''q3'' example_store = Inr False"
proof -
  have h1: "question_summaries example_store ''q1'' = Some (summary_of ACTIVITY_STATUS_PRIVATE)"
    and h2: "question_summaries example_store ''q2'' = Some (summary_of QUESTION_STATUS_PENDING)"
    and h3: "question_summaries example_store ''q3'' = Some (summary_of QUESTION_STATUS_APPROVED)"
    by (simp_all add: example_store_def)
  from check_can_edit_question_iff[OF h1, of example_env "''alice''"]
    check_can_edit_question_iff[OF h1, of example_env "''admin''"]
    check_can_edit_question_iff[OF h2, of example_env "''admin''"]
    check_can_edit_question_iff[OF h2, of example_env "''alice''"]
    check_can_edit_question_iff[OF h3, of example_env "''manager''"]
    check_can_edit_question_iff[OF h3, of example_env "''alice''"]
  show ?thesis
    by (simp add: summary_of_def example_env_def)
qed

section \<open>Publishing and unpublishing\<close>

text \<open>
  Claim C8. For an existing summary and a committer who holds the status-change action,
  \<^verbatim>\<open>publish_question\<close> raises "already published" when the status is approved and
  otherwise stores the summary with status approved; \<^verbatim>\<open>unpublish_question\<close> raises
  "already unpublished" when the status is not approved and otherwise stores the summary
  with status private. For a committer without the action both raise "not enough rights".
  Every failing call returns the store it was given.
\<close>

theorem publish_unpublish_guards:
  assumes "question_summaries ds question_id = Some question_summary"
  shows "(ACTION_CHANGE_QUESTION_STATUS \<in> set (user_actions env committer_id) \<longrightarrow>
            (qs_status question_summary = QUESTION_STATUS_APPROVED \<longrightarrow>
               publish_question env question_id committer_id ds = (Inl AlreadyPublished, ds) \<and>
               unpublish_question env question_id committer_id ds =
                 (Inr (), ds\<lparr>question_summaries := (question_summaries ds)
                    (question_id \<mapsto> question_summary\<lparr>qs_status := ACTIVITY_STATUS_PRIVATE\<rparr>)\<rparr>)) \<and>
            (qs_status question_summary \<noteq> QUESTION_STATUS_APPROVED \<longrightarrow>
               publish_question env question_id committer_id ds =
                 (Inr (), ds\<lparr>question_summaries := (question_summaries ds)
                    (question_id \<mapsto> question_summary\<lparr>qs_status := QUESTION_STATUS_APPROVED\<rparr>)\<rparr>) \<and>
               unpublish_question env question_id committer_id ds = (Inl AlreadyUnpublished, ds))) \<and>
         (ACTION_CHANGE_QUESTION_STATUS \<notin> set (user_actions env committer_id) \<longrightarrow>
            publish_question env question_id committer_id ds = (Inl NotEnoughRights, ds) \<and>
            unpublish_question env question_id committer_id ds = (Inl NotEnoughRights, ds))"
  using assms
  by (simp add: publish_question_def unpublish_question_def get_question_summary_by_question_id_def)

text \<open>
  The guards on the concrete store, for \<open>admin\<close>, who holds the action, and for \<open>bob\<close>,
  who does not.
\<close>

theorem publish_unpublish_guards_witness:
  "publish_question example_env ''q3'' ''admin'' example_store = (Inl AlreadyPublished, example_store) \<and>
   unpublish_question example_env ''q1'' ''admin'' example_store = (Inl AlreadyUnpublished, example_store) \<and>
   question_summaries (snd (publish_question example_env ''q1'' ''admin'' example_store)) ''q1'' =
     Some (summary_of QUESTION_STATUS_APPROVED) \<and>
   question_summaries (snd (unpublish_question example_env ''q3'' ''admin'' example_store)) ''q3'' =
     Some (summary_of ACTIVITY_STATUS_PRIVATE) \<and>
   publish_question example_env ''q1'' ''bob'' example_store = (Inl NotEnoughRights, example_store) \<and>
   unpublish_question example_env ''q3'' ''bob'' example_store = (Inl NotEnoughRights, example_store)"
proof -
  have h1: "question_summaries example_store ''q1'' = Some (summary_of ACTIVITY_STATUS_PRIVATE)"
    and h3: "question_summaries example_store ''q3'' = Some (summary_of QUESTION_STATUS_APPROVED)"
    by (simp_all add: example_store_def)
  have admin: "ACTION_CHANGE_QUESTION_STATUS \<in> set (user_actions example_env ''admin'')"
    and bob: "ACTION_CHANGE_QUESTION_STATUS \<notin> set (user_actions example_env ''bob'')"
    by (simp_all add: example_env_def)
  from publish_unpublish_guards[OF h1, of example_env "''admin''"]
    publish_unpublish_guards[OF h3, of example_env "''admin''"]
    publish_unpublish_guards[OF h1, of example_env "''bob''"]
    publish_unpublish_guards[OF h3, of example_env "''bob''"] admin bob
  show ?thesis
    by (simp add: summary_of_def)
qed

section \<open>Discarding a draft\<close>

text \<open>
  Claim C10. \<^verbatim>\<open>discard_draft\<close> never raises, and discarding twice gives the result and
  the store of discarding once. Without a draft row the store is unchanged; with one, the
  row stays under its key with its change list, timestamp and base version cleared and its
  \<^verbatim>\<open>draft_change_list_id\<close> as it was.
\<close>

theorem discard_draft_idempotent:
  "fst (discard_draft question_id user_id ds) = Inr () \<and>
   discard_draft question_id user_id (snd (discard_draft question_id user_id ds)) =
     discard_draft question_id user_id ds \<and>
   (user_data_models ds (user_id, question_id) = None \<longrightarrow>
      snd (discard_draft question_id user_id ds) = ds) \<and>
   (user_data_models ds (user_id, question_id) = Some row \<longrightarrow>
      snd (discard_draft question_id user_id ds) =
        ds\<lparr>user_data_models := (user_data_models ds)((user_id, question_id) \<mapsto>
             \<lparr>draft_change_list = None, draft_change_list_last_updated = None,
              draft_change_list_question_version = None,
              draft_change_list_id = draft_change_list_id row\<rparr>)\<rparr>)"
  by (cases "user_data_models ds (user_id, question_id)"; cases row)
    (simp_all add: discard_draft_def)

text \<open>
  On a store where \<open>alice\<close> has a draft with id 4 and \<open>bob\<close> has none.
\<close>

theorem discard_draft_idempotent_witness:
  "snd (discard_draft ''q1'' ''bob'' (store_with_draft (draft_row [fr_edit] 10 2 4))) =
     store_with_draft (draft_row [fr_edit] 10 2 4) \<and>
   user_data_models (snd (discard_draft ''q1'' ''alice''
       (store_with_draft (draft_row [fr_edit] 10 2 4)))) (''alice'', ''q1'') =
     Some \<lparr>draft_change_list = None, draft_change_list_last_updated = None,
           draft_change_list_question_version = None, draft_change_list_id = 4\<rparr> \<and>
   discard_draft ''q1'' ''alice'' (snd (discard_draft ''q1'' ''alice''
       (store_with_draft (draft_row [fr_edit] 10 2 4)))) =
     discard_draft ''q1'' ''alice'' (store_with_draft (draft_row [fr_edit] 10 2 4))"
proof -
  have none: "user_data_models (store_with_draft (draft_row [fr_edit] 10 2 4)) (''bob'', ''q1'') = None"
    and some: "user_data_models (store_with_draft (draft_row [fr_edit] 10 2 4)) (''alice'', ''q1'') =
      Some (draft_row [fr_edit] 10 2 4)"
    by (simp_all add: store_with_draft_def)
  from discard_draft_idempotent[of "''q1''" "''bob''" "store_with_draft (draft_row [fr_edit] 10 2 4)"] none
    discard_draft_idempotent[of "''q1''" "''alice''" "store_with_draft (draft_row [fr_edit] 10 2 4)"
      "draft_row [fr_edit] 10 2 4"] some
  show ?thesis
    by (simp add: draft_row_def store_with_draft_def discard_draft_def)
qed

section \<open>Stale drafts\<close>

text \<open>
  Claim C1. A draft is to count as valid exactly when its recorded base version equals the
  current version of the question, and a draft recorded against another version is to be
  ignored by \<^verbatim>\<open>get_question_with_draft_applied\<close>. The code compares the base
  version with \<^verbatim>\<open>question_data_schema_version\<close> instead. On the store below the
  question is at version 2 with schema version 1: a draft recorded against version 1 is
  applied (the language becomes French though the canonical question is English), and a
  draft recorded against the current version 2 is dropped.
\<close>

theorem draft_validity_compares_schema_version:
  "map_option qm_version
     (question_models (store_with_draft (draft_row [fr_edit] 10 1 1)) ''q1'') = Some 2 \<and>
   fst (get_question_by_id ''q1'' True None (store_with_draft (draft_row [fr_edit] 10 1 1))) =
     Inr (Some en_question) \<and>
   fst (get_question_with_draft_applied ''q1'' ''alice''
          (store_with_draft (draft_row [fr_edit] 10 1 1))) =
     Inr (Some (en_question\<lparr>language_code := PStr ''fr''\<rparr>)) \<and>
   fst (get_question_with_draft_applied ''q1'' ''alice''
          (store_with_draft (draft_row [fr_edit] 10 2 1))) =
     Inr (Some en_question)"
  by (simp add: get_question_with_draft_applied_def is_version_of_draft_valid_def truthy_def
      example_defs service_defs)

section \<open>The cache after a commit\<close>

text \<open>
  Claim C2. After a successful \<^verbatim>\<open>update_question\<close> the unversioned cache key is to
  hold nothing older than the committed version. \<^verbatim>\<open>apply_change_list\<close> fills the
  cache with the snapshot it read, and \<^verbatim>\<open>_save_question\<close> neither deletes nor
  overwrites that entry. On the store below the update commits version 3 in French, the
  cache keeps the English snapshot of version 2, and the next
  \<^verbatim>\<open>get_question_by_id\<close> without a version returns it.
\<close>

theorem update_question_leaves_stale_cache:
  "fst (update_question example_env ''alice'' ''q1'' [fr_edit] ''to French'' example_store) =
     Inr () \<and>
   map_option qm_version (question_models (snd (update_question example_env ''alice'' ''q1''
      [fr_edit] ''to French'' example_store)) ''q1'') = Some 3 \<and>
   map_option qm_language_code (question_models (snd (update_question example_env ''alice''
      ''q1'' [fr_edit] ''to French'' example_store)) ''q1'') = Some (PStr ''fr'') \<and>
   memcache (snd (update_question example_env ''alice'' ''q1''
      [fr_edit] ''to French'' example_store)) (QuestionKey ''q1'') = Some en_question \<and>
   fst (get_question_by_id ''q1'' True None (snd (update_question example_env ''alice'' ''q1''
      [fr_edit] ''to French'' example_store))) = Inr (Some en_question)"
  by (simp add: example_defs service_defs)

section \<open>The effect of each edit\<close>

text \<open>
  Claim C3. Edits are applied in list order; a language-code edit replaces
  \<^verbatim>\<open>language_code\<close> and a question-data edit is to replace \<^verbatim>\<open>question_data\<close>.
  The branch for question data tests \<^verbatim>\<open>change.cmd\<close> against the property name, which
  never holds under the outer test of \<^verbatim>\<open>change.cmd\<close>, so a question-data edit leaves
  the question as it was, alone or after a language-code edit that is applied.
\<close>

theorem question_data_edit_is_ignored:
  "fst (apply_change_list ''q1'' [data_edit] example_store) = Inr (Some en_question) \<and>
   question_data en_question \<noteq> new_value data_edit \<and>
   fst (apply_change_list ''q1'' [fr_edit, data_edit] example_store) =
     Inr (Some (en_question\<lparr>language_code := PStr ''fr''\<rparr>))"
  by (simp add: example_defs service_defs)

section \<open>Unrecognized edits\<close>

text \<open>
  Claim C4, as the code has it. An edit that is not recognized (its command is not the
  update-property command, or its property is neither the language code nor the question
  data) raises nothing and is skipped. A change list gives what the same list without
  such an edit gives. A change list of such edits only gives what
  \<^verbatim>\<open>get_question_by_id\<close> gives. For a question that \<^verbatim>\<open>get_question_by_id\<close>
  finds, a language-code edit followed only by such edits is applied to the result of the
  edits before it: the snapshot returned is that result with the language code replaced
  by the new value of the edit. On a question found in storage or in the cache,
  \<^verbatim>\<open>apply_change_list\<close> returns a snapshot for every change list. Whatever the
  change list, the store after \<^verbatim>\<open>apply_change_list\<close> is the store after
  \<^verbatim>\<open>get_question_by_id\<close>. When \<^verbatim>\<open>update_question\<close> fails, the question
  models, their snapshots and the commit log are what they were. When it succeeds, the
  model it stores is the stored model with the question data, the schema version and the
  language code of the snapshot that \<^verbatim>\<open>apply_change_list\<close> returned for the whole
  change list, at the next version.
\<close>

theorem apply_change_list_skips_unrecognized:
  "(cmd c \<noteq> CMD_UPDATE_QUESTION_PROPERTY \<or>
    (property_name c \<noteq> QUESTION_PROPERTY_LANGUAGE_CODE \<and>
     property_name c \<noteq> QUESTION_PROPERTY_QUESTION_DATA) \<longrightarrow>
      apply_change_list question_id (pre @ c # post) ds =
        apply_change_list question_id (pre @ post) ds) \<and>
   ((\<forall>u\<in>set skipped.
       cmd u \<noteq> CMD_UPDATE_QUESTION_PROPERTY \<or>
       (property_name u \<noteq> QUESTION_PROPERTY_LANGUAGE_CODE \<and>
        property_name u \<noteq> QUESTION_PROPERTY_QUESTION_DATA)) \<longrightarrow>
      apply_change_list question_id skipped ds = get_question_by_id question_id True None ds) \<and>
   (cmd l = CMD_UPDATE_QUESTION_PROPERTY \<and>
    property_name l = QUESTION_PROPERTY_LANGUAGE_CODE \<and>
    (\<forall>u\<in>set after.
       cmd u \<noteq> CMD_UPDATE_QUESTION_PROPERTY \<or>
       (property_name u \<noteq> QUESTION_PROPERTY_LANGUAGE_CODE \<and>
        property_name u \<noteq> QUESTION_PROPERTY_QUESTION_DATA)) \<and>
    fst (get_question_by_id question_id True None ds) = Inr (Some q0) \<longrightarrow>
      (\<exists>q1. fst (apply_change_list question_id before ds) = Inr (Some q1) \<and>
            fst (apply_change_list question_id (before @ l # after) ds) =
              Inr (Some (q1\<lparr>language_code := new_value l\<rparr>)))) \<and>
   (question_models ds question_id = Some m \<or>
    memcache ds (QuestionKey question_id) = Some q \<longrightarrow>
      (\<exists>q'. fst (apply_change_list question_id change_list ds) = Inr (Some q'))) \<and>
   snd (apply_change_list question_id change_list ds) =
     snd (get_question_by_id question_id True None ds) \<and>
   (fst (update_question env committer_id question_id change_list commit_message ds) = Inl e \<longrightarrow>
      question_models (snd (update_question env committer_id question_id change_list
        commit_message ds)) = question_models ds \<and>
      question_snapshots (snd (update_question env committer_id question_id change_list
        commit_message ds)) = question_snapshots ds \<and>
      commit_log (snd (update_question env committer_id question_id change_list
        commit_message ds)) = commit_log ds) \<and>
   (fst (update_question env committer_id question_id change_list commit_message ds) =
      Inr () \<longrightarrow>
      (\<exists>q' stored. fst (apply_change_list question_id change_list ds) = Inr (Some q') \<and>
         question_models ds (q_question_id q') = Some stored \<and>
         question_models (snd (update_question env committer_id question_id change_list
             commit_message ds)) =
           (question_models ds)(qm_id stored \<mapsto>
              stored\<lparr>qm_question_data := question_data q',
                     qm_question_data_schema_version := question_data_schema_version q',
                     qm_language_code := language_code q',
                     qm_version := qm_version stored + 1\<rparr>)))"
proof (intro conjI impI)
  assume "cmd c \<noteq> CMD_UPDATE_QUESTION_PROPERTY \<or>
    (property_name c \<noteq> QUESTION_PROPERTY_LANGUAGE_CODE \<and>
     property_name c \<noteq> QUESTION_PROPERTY_QUESTION_DATA)"
  then have "\<And>question. apply_changes (pre @ c # post) question =
        apply_changes (pre @ post) question"
    by (rule apply_changes_skip)
  then show "apply_change_list question_id (pre @ c # post) ds =
        apply_change_list question_id (pre @ post) ds"
    by (simp add: apply_change_list_def split: prod.splits sum.splits)
next
  assume "\<forall>u\<in>set skipped.
       cmd u \<noteq> CMD_UPDATE_QUESTION_PROPERTY \<or>
       (property_name u \<noteq> QUESTION_PROPERTY_LANGUAGE_CODE \<and>
        property_name u \<noteq> QUESTION_PROPERTY_QUESTION_DATA)"
  then have "\<And>question. apply_changes skipped question = Inr question"
    by (rule apply_changes_all_skipped)
  then show "apply_change_list question_id skipped ds =
      get_question_by_id question_id True None ds"
    by (simp add: apply_change_list_def split: prod.splits sum.splits)
next
  assume a: "cmd l = CMD_UPDATE_QUESTION_PROPERTY \<and>
    property_name l = QUESTION_PROPERTY_LANGUAGE_CODE \<and>
    (\<forall>u\<in>set after.
       cmd u \<noteq> CMD_UPDATE_QUESTION_PROPERTY \<or>
       (property_name u \<noteq> QUESTION_PROPERTY_LANGUAGE_CODE \<and>
        property_name u \<noteq> QUESTION_PROPERTY_QUESTION_DATA)) \<and>
    fst (get_question_by_id question_id True None ds) = Inr (Some q0)"
  then have g: "fst (get_question_by_id question_id True None ds) = Inr (Some q0)" by simp
  from a have "\<exists>q1. apply_changes before (Some q0) = Inr (Some q1) \<and>
              apply_changes (before @ l # after) (Some q0) =
                Inr (Some (q1\<lparr>language_code := new_value l\<rparr>))"
    by (intro apply_changes_language_edit) simp_all
  then show "\<exists>q1. fst (apply_change_list question_id before ds) = Inr (Some q1) \<and>
            fst (apply_change_list question_id (before @ l # after) ds) =
              Inr (Some (q1\<lparr>language_code := new_value l\<rparr>))"
    by (simp add: apply_change_list_fst[OF g])
next
  assume "question_models ds question_id = Some m \<or>
    memcache ds (QuestionKey question_id) = Some q"
  then show "\<exists>q'. fst (apply_change_list question_id change_list ds) = Inr (Some q')"
    by (rule apply_change_list_found)
next
  show "snd (apply_change_list question_id change_list ds) =
     snd (get_question_by_id question_id True None ds)"
    by (rule apply_change_list_state)
next
  assume f: "fst (update_question env committer_id question_id change_list commit_message ds) =
    Inl e"
  show "question_models (snd (update_question env committer_id question_id change_list
        commit_message ds)) = question_models ds"
    by (simp add: update_question_failure[OF f] get_question_by_id_keeps)
  show "question_snapshots (snd (update_question env committer_id question_id change_list
        commit_message ds)) = question_snapshots ds"
    by (simp add: update_question_failure[OF f] get_question_by_id_keeps)
  show "commit_log (snd (update_question env committer_id question_id change_list
        commit_message ds)) = commit_log ds"
    by (simp add: update_question_failure[OF f] get_question_by_id_keeps)
next
  assume "fst (update_question env committer_id question_id change_list commit_message ds) =
      Inr ()"
  then show "\<exists>q' stored. fst (apply_change_list question_id change_list ds) = Inr (Some q') \<and>
         question_models ds (q_question_id q') = Some stored \<and>
         question_models (snd (update_question env committer_id question_id change_list
             commit_message ds)) =
           (question_models ds)(qm_id stored \<mapsto>
              stored\<lparr>qm_question_data := question_data q',
                     qm_question_data_schema_version := question_data_schema_version q',
                     qm_language_code := language_code q',
                     qm_version := qm_version stored + 1\<rparr>)"
    by (rule update_question_success)
qed

text \<open>
  On the concrete store: an unknown command between two language edits is skipped; two
  unrecognized edits alone give the canonical snapshot; the French edit after a \<open>zz\<close>
  edit and before an unknown property decides the language; an update whose non-empty
  change list ends in \<open>zz\<close> fails validation and stores nothing; an update with a
  French edit and an unknown property succeeds and stores French at version 3.
\<close>

theorem apply_change_list_skips_unrecognized_witness:
  "apply_change_list ''q1'' [fr_edit, unknown_cmd_edit, zz_edit] example_store =
     apply_change_list ''q1'' [fr_edit, zz_edit] example_store \<and>
   apply_change_list ''q1'' [unknown_cmd_edit, unknown_field_edit] example_store =
     get_question_by_id ''q1'' True None example_store \<and>
   fst (apply_change_list ''q1'' [zz_edit, unknown_cmd_edit, fr_edit, unknown_field_edit]
          example_store) =
     Inr (Some (en_question\<lparr>language_code := PStr ''fr''\<rparr>)) \<and>
   fst (update_question example_env ''alice'' ''q1'' [zz_edit, unknown_cmd_edit] ''to zz''
          example_store) = Inl ValidationError \<and>
   question_models (snd (update_question example_env ''alice'' ''q1''
       [zz_edit, unknown_cmd_edit] ''to zz'' example_store)) = question_models example_store \<and>
   question_snapshots (snd (update_question example_env ''alice'' ''q1''
       [zz_edit, unknown_cmd_edit] ''to zz'' example_store)) =
     question_snapshots example_store \<and>
   commit_log (snd (update_question example_env ''alice'' ''q1''
       [zz_edit, unknown_cmd_edit] ''to zz'' example_store)) = commit_log example_store \<and>
   fst (update_question example_env ''alice'' ''q1'' [fr_edit, unknown_field_edit] ''to French''
          example_store) = Inr () \<and>
   question_models (snd (update_question example_env ''alice'' ''q1''
       [fr_edit, unknown_field_edit] ''to French'' example_store)) ''q1'' =
     Some (en_question_model\<lparr>qm_language_code := PStr ''fr'', qm_version := 3\<rparr>)"
proof -
  have u1: "cmd unknown_cmd_edit \<noteq> CMD_UPDATE_QUESTION_PROPERTY"
    and u2: "property_name unknown_field_edit \<noteq> QUESTION_PROPERTY_LANGUAGE_CODE \<and>
             property_name unknown_field_edit \<noteq> QUESTION_PROPERTY_QUESTION_DATA"
    and fr: "cmd fr_edit = CMD_UPDATE_QUESTION_PROPERTY \<and>
             property_name fr_edit = QUESTION_PROPERTY_LANGUAGE_CODE \<and>
             new_value fr_edit = PStr ''fr''"
    by (simp_all add: example_defs)
  have g: "fst (get_question_by_id ''q1'' True None example_store) = Inr (Some en_question)"
    by (simp add: example_defs service_defs)
  have z: "fst (apply_change_list ''q1'' [zz_edit, unknown_cmd_edit] example_store) =
      Inr (Some (en_question\<lparr>language_code := PStr ''zz''\<rparr>))"
    by (simp add: zz_edit_def example_defs service_defs)
  have f: "fst (update_question example_env ''alice'' ''q1'' [zz_edit, unknown_cmd_edit]
      ''to zz'' example_store) = Inl ValidationError"
    by (simp add: zz_edit_def example_defs service_defs)
  have ok: "fst (update_question example_env ''alice'' ''q1'' [fr_edit, unknown_field_edit]
      ''to French'' example_store) = Inr ()"
    by (simp add: example_defs service_defs)
  have a: "fst (apply_change_list ''q1'' [fr_edit, unknown_field_edit] example_store) =
      Inr (Some (en_question\<lparr>language_code := PStr ''fr''\<rparr>))"
    by (simp add: example_defs service_defs)
  have m: "question_models example_store = [''q1'' \<mapsto> en_question_model]"
    by (simp add: example_store_def)
  have c1: "apply_change_list ''q1'' [fr_edit, unknown_cmd_edit, zz_edit] example_store =
     apply_change_list ''q1'' [fr_edit, zz_edit] example_store"
    using apply_change_list_skips_unrecognized[where c = unknown_cmd_edit
        and pre = "[fr_edit]" and post = "[zz_edit]" and question_id = "''q1''"
        and ds = example_store] u1
    by simp
  have c2: "apply_change_list ''q1'' [unknown_cmd_edit, unknown_field_edit] example_store =
     get_question_by_id ''q1'' True None example_store"
    using apply_change_list_skips_unrecognized[where
        skipped = "[unknown_cmd_edit, unknown_field_edit]" and question_id = "''q1''"
        and ds = example_store] u1 u2
    by simp
  have c3: "fst (apply_change_list ''q1'' [zz_edit, unknown_cmd_edit, fr_edit,
       unknown_field_edit] example_store) =
     Inr (Some (en_question\<lparr>language_code := PStr ''fr''\<rparr>))"
    using apply_change_list_skips_unrecognized[where l = fr_edit
        and before = "[zz_edit, unknown_cmd_edit]" and after = "[unknown_field_edit]"
        and q0 = en_question and question_id = "''q1''" and ds = example_store] u2 fr g z
    by (auto simp: en_question_def)
  have c5: "question_models (snd (update_question example_env ''alice'' ''q1''
       [zz_edit, unknown_cmd_edit] ''to zz'' example_store)) = question_models example_store \<and>
   question_snapshots (snd (update_question example_env ''alice'' ''q1''
       [zz_edit, unknown_cmd_edit] ''to zz'' example_store)) =
     question_snapshots example_store \<and>
   commit_log (snd (update_question example_env ''alice'' ''q1''
       [zz_edit, unknown_cmd_edit] ''to zz'' example_store)) = commit_log example_store"
    using apply_change_list_skips_unrecognized[where question_id = "''q1''"
        and ds = example_store and change_list = "[zz_edit, unknown_cmd_edit]"
        and env = example_env and e = ValidationError and committer_id = "''alice''"
        and commit_message = "''to zz''"] f
    by simp
  have c6: "question_models (snd (update_question example_env ''alice'' ''q1''
       [fr_edit, unknown_field_edit] ''to French'' example_store)) ''q1'' =
     Some (en_question_model\<lparr>qm_language_code := PStr ''fr'', qm_version := 3\<rparr>)"
    using apply_change_list_skips_unrecognized[where question_id = "''q1''"
        and ds = example_store and change_list = "[fr_edit, unknown_field_edit]"
        and env = example_env and committer_id = "''alice''"
        and commit_message = "''to French''"] ok a m
    by (auto simp: en_question_def en_question_model_def)
  from c1 c2 c3 f c5 ok c6 show ?thesis by simp
qed

text \<open>
  Claim C4 as stated fails: a change list holding an edit with an unknown command and an
  edit of a property that the question does not have is applied without any error, and the
  edit after them takes effect.
\<close>

theorem apply_change_list_silently_skips_malformed_edits:
  "fst (apply_change_list ''q1'' [unknown_cmd_edit, unknown_field_edit, fr_edit] example_store) =
     Inr (Some (en_question\<lparr>language_code := PStr ''fr''\<rparr>))"
  by (simp add: example_defs service_defs)

section \<open>Updating and the edit permission\<close>




section \<open>Rejecting a question\<close>

text \<open>
  Claim C6. \<^verbatim>\<open>reject_question\<close> is to move a pending summary to rejected only for a
  committer who holds the status-change action, and to raise otherwise.
  \<^verbatim>\<open>publish_question\<close> and \<^verbatim>\<open>unpublish_question\<close> make that check;
  \<^verbatim>\<open>reject_question\<close> does not. On the store below \<open>bob\<close> holds no action: his
  rejection of the pending question succeeds and stores the status rejected, while his
  publication of the same question raises.
\<close>

theorem reject_question_checks_no_capability:
  "ACTION_CHANGE_QUESTION_STATUS \<notin> set (user_actions example_env ''bob'') \<and>
   map_option qs_status (question_summaries example_store ''q2'') =
     Some QUESTION_STATUS_PENDING \<and>
   fst (reject_question ''bob'' ''q2'' example_store) = Inr () \<and>
   map_option qs_status
     (question_summaries (snd (reject_question ''bob'' ''q2'' example_store)) ''q2'') =
     Some QUESTION_STATUS_REJECTED \<and>
   publish_question example_env ''q2'' ''bob'' example_store =
     (Inl NotEnoughRights, example_store)"
  by (simp add: reject_question_def publish_question_def
      get_question_summary_by_question_id_def QuestionSummaryModel_commit_def example_defs)

section \<open>Saving a draft\<close>

text \<open>
  Claim C9, as the code has it. When the stored draft holds a non-empty change list and its
  timestamp is strictly newer than \<^verbatim>\<open>current_datetime\<close>, \<^verbatim>\<open>create_or_update_draft\<close>
  returns without changing anything. When there is no draft row, or the stored change list
  is absent or empty, or the stored timestamp is not newer, and the change list applies
  to the question and the result validates, the call stores the change list, the supplied
  question version and \<^verbatim>\<open>current_datetime\<close>, and adds exactly one to
  \<^verbatim>\<open>draft_change_list_id\<close>, counted from 0 for a row that it creates.
\<close>

theorem create_or_update_draft_guard:
  "(user_data_models ds (user_id, question_id) = Some row \<and>
    draft_change_list row = Some stored_changes \<and> stored_changes \<noteq> [] \<and>
    draft_change_list_last_updated row = Some t \<and> current_datetime < t \<longrightarrow>
      create_or_update_draft env question_id user_id change_list question_version
        current_datetime ds = (Inr (), ds)) \<and>
   ((user_data_models ds (user_id, question_id) = None \<or>
     (\<exists>r. user_data_models ds (user_id, question_id) = Some r \<and>
        (draft_change_list r = None \<or> draft_change_list r = Some [] \<or>
         (\<exists>t'. draft_change_list_last_updated r = Some t' \<and> t' \<le> current_datetime)))) \<and>
    apply_change_list question_id change_list ds = (Inr (Some updated_question), ds') \<and>
    question_validate env updated_question \<longrightarrow>
      create_or_update_draft env question_id user_id change_list question_version
        current_datetime ds =
      (Inr (), ds'\<lparr>user_data_models := (user_data_models ds)((user_id, question_id) \<mapsto>
         \<lparr>draft_change_list = Some change_list,
          draft_change_list_last_updated = Some current_datetime,
          draft_change_list_question_version = Some question_version,
          draft_change_list_id =
            (case user_data_models ds (user_id, question_id) of
               None \<Rightarrow> 0 | Some r \<Rightarrow> draft_change_list_id r) + 1\<rparr>)\<rparr>))"
proof (intro conjI impI)
  assume "user_data_models ds (user_id, question_id) = Some row \<and>
    draft_change_list row = Some stored_changes \<and> stored_changes \<noteq> [] \<and>
    draft_change_list_last_updated row = Some t \<and> current_datetime < t"
  then have "draft_is_newer (user_data_models ds (user_id, question_id)) current_datetime =
    Inr True"
    using draft_is_newer_True by blast
  then show "create_or_update_draft env question_id user_id change_list question_version
        current_datetime ds = (Inr (), ds)"
    by (simp add: create_or_update_draft_def)
next
  assume a: "(user_data_models ds (user_id, question_id) = None \<or>
     (\<exists>r. user_data_models ds (user_id, question_id) = Some r \<and>
        (draft_change_list r = None \<or> draft_change_list r = Some [] \<or>
         (\<exists>t'. draft_change_list_last_updated r = Some t' \<and> t' \<le> current_datetime)))) \<and>
    apply_change_list question_id change_list ds = (Inr (Some updated_question), ds') \<and>
    question_validate env updated_question"
  then have "draft_is_newer (user_data_models ds (user_id, question_id)) current_datetime =
    Inr False"
    using draft_is_newer_False by blast
  with a show "create_or_update_draft env question_id user_id change_list question_version
        current_datetime ds =
      (Inr (), ds'\<lparr>user_data_models := (user_data_models ds)((user_id, question_id) \<mapsto>
         \<lparr>draft_change_list = Some change_list,
          draft_change_list_last_updated = Some current_datetime,
          draft_change_list_question_version = Some question_version,
          draft_change_list_id =
            (case user_data_models ds (user_id, question_id) of
               None \<Rightarrow> 0 | Some r \<Rightarrow> draft_change_list_id r) + 1\<rparr>)\<rparr>)"
    using create_or_update_draft_writes by blast
qed

text \<open>
  On the concrete store: an older save against a newer non-empty draft changes nothing, a
  save at the draft's own timestamp replaces it and moves the id from 4 to 5, and a first
  save creates the row with id 1.
\<close>

theorem create_or_update_draft_guard_witness:
  "create_or_update_draft example_env ''q1'' ''alice'' [data_edit] 2 5
       (store_with_draft (draft_row [fr_edit] 10 2 4)) =
     (Inr (), store_with_draft (draft_row [fr_edit] 10 2 4)) \<and>
   user_data_models (snd (create_or_update_draft example_env ''q1'' ''alice'' [data_edit] 2 10
       (store_with_draft (draft_row [fr_edit] 10 2 4)))) (''alice'', ''q1'') =
     Some (draft_row [data_edit] 10 2 5) \<and>
   user_data_models (snd (create_or_update_draft example_env ''q1'' ''alice'' [fr_edit] 2 7
       example_store)) (''alice'', ''q1'') =
     Some (draft_row [fr_edit] 7 2 1)"
proof -
  let ?s = "store_with_draft (draft_row [fr_edit] 10 2 4)"
  have r: "user_data_models ?s (''alice'', ''q1'') = Some (draft_row [fr_edit] 10 2 4)"
    and n: "user_data_models example_store (''alice'', ''q1'') = None"
    by (simp_all add: store_with_draft_def example_store_def)
  have d: "draft_change_list (draft_row [fr_edit] 10 2 4) = Some [fr_edit]"
    "draft_change_list_last_updated (draft_row [fr_edit] 10 2 4) = Some 10"
    "draft_change_list_id (draft_row [fr_edit] 10 2 4) = 4"
    by (simp_all add: draft_row_def)
  have a1: "apply_change_list ''q1'' [data_edit] ?s =
      (Inr (Some en_question), snd (apply_change_list ''q1'' [data_edit] ?s))"
    and a2: "apply_change_list ''q1'' [fr_edit] example_store =
      (Inr (Some (en_question\<lparr>language_code := PStr ''fr''\<rparr>)),
       snd (apply_change_list ''q1'' [fr_edit] example_store))"
    by (simp_all add: prod_eq_iff example_defs service_defs)
  have v: "question_validate example_env en_question"
    "question_validate example_env (en_question\<lparr>language_code := PStr ''fr''\<rparr>)"
    by (simp_all add: example_env_def en_question_def)
  from create_or_update_draft_guard[where ds = ?s and user_id = "''alice''"
      and question_id = "''q1''" and row = "draft_row [fr_edit] 10 2 4"
      and stored_changes = "[fr_edit]" and t = 10 and current_datetime = 5
      and env = example_env and change_list = "[data_edit]" and question_version = 2]
    create_or_update_draft_guard[where ds = ?s and user_id = "''alice''"
      and question_id = "''q1''" and current_datetime = 10
      and env = example_env and change_list = "[data_edit]" and question_version = 2
      and updated_question = en_question
      and ds' = "snd (apply_change_list ''q1'' [data_edit] ?s)"]
    create_or_update_draft_guard[where ds = example_store and user_id = "''alice''"
      and question_id = "''q1''" and current_datetime = 7
      and env = example_env and change_list = "[fr_edit]" and question_version = 2
      and updated_question = "en_question\<lparr>language_code := PStr ''fr''\<rparr>"
      and ds' = "snd (apply_change_list ''q1'' [fr_edit] example_store)"]
    r n d a1 a2 v
  show ?thesis
    by (simp add: draft_row_def apply_change_list_state get_question_by_id_keeps)
qed

text \<open>
  Claim C9 as stated fails: a draft saved at time 10 with an empty change list is
  overwritten by a save that carries the older time 5.
\<close>

theorem create_or_update_draft_overwrites_newer_empty_draft:
  "user_data_models (snd (create_or_update_draft example_env ''q1'' ''alice'' [] 1 10 example_store))
     (''alice'', ''q1'') = Some (draft_row [] 10 1 1) \<and>
   user_data_models (snd (create_or_update_draft example_env ''q1'' ''alice'' [fr_edit] 1 5
       (snd (create_or_update_draft example_env ''q1'' ''alice'' [] 1 10 example_store))))
     (''alice'', ''q1'') = Some (draft_row [fr_edit] 5 1 2)"
  by (simp add: create_or_update_draft_def draft_is_newer_def truthy_def
      QuestionUserDataModel_create_def example_defs service_defs)

end
